theory Spec2Isabelle
  imports Complex_Main
begin

section \<open>Values of the configuration\<close>

text \<open>
  The solver is driven by a settings dictionary whose entries are dynamically typed.
  \<open>pyval\<close> holds the shapes the two source files test for: \<open>None\<close>, numbers (exact
  rationals stand for Python's numbers), strings, lists and tuples, dictionaries (in
  insertion order), the dolfin objects \<open>Constant\<close>, \<open>Function\<close> and \<open>Expression\<close>, the
  result of \<open>interpolate(Expression(...), W)\<close>, a field loaded from a file, a callable of
  the simulation time, and any other object.
\<close>

datatype pyval =
    PNone
  | PNum rat
  | PStr string
  | PList "pyval list"
  | PTuple "pyval list"
  | PDict "(string \<times> pyval) list"
  | PConstant pyval
  | PFunction string
  | PExpression string
  | PInterpolated pyval
  | PLoaded string
  | PCallable "rat \<Rightarrow> pyval"
  | PObject string

text \<open>
  Exceptions. \<open>SolverError template args\<close> is \<open>SolverError(template.format(*args))\<close>;
  \<open>PyException\<close> is the plain \<open>Exception\<close> of \<open>build_nullspace\<close>; \<open>UflError\<close> is an error
  raised inside the finite-element library.
\<close>

datatype error =
    KeyError string
  | IndexError
  | UnboundLocalError string
  | NameError string
  | TypeError string
  | ZeroDivisionError
  | AssertionError
  | SolverError string "pyval list"
  | PyException string
  | UflError string

text \<open>The text of a formatted message when every argument is a string.\<close>

fun format_msg :: "string \<Rightarrow> string list \<Rightarrow> string" where
  "format_msg [] args = []"
| "format_msg [c] args = [c]"
| "format_msg (c # d # rest) args =
     (if c = CHR ''{'' \<and> d = CHR ''}'' then
        (case args of
           [] \<Rightarrow> c # format_msg (d # rest) args
         | a # args' \<Rightarrow> a @ format_msg rest args')
      else c # format_msg (d # rest) args)"

section \<open>Transient settings and the time-step policy\<close>

text \<open>
  \<open>float(self.transient_settings['time_step'])\<close> either yields a number or raises, and
  the source catches whatever it raises with a bare \<open>except\<close>. \<open>Convertible dt\<close> is an
  entry that \<open>float\<close> turns into \<open>dt\<close>; \<open>NotConvertible\<close> is a missing key or an entry
  \<open>float\<close> rejects (\<open>None\<close>, a list, a non-numeric string).
  The other keys are \<open>None\<close> when absent from the dictionary.
\<close>

datatype time_step_entry = Convertible rat | NotConvertible

record transient_settings =
  transient :: bool
  starting_time :: "rat option"
  time_step :: time_step_entry
  ending_time :: "rat option"
  time_series :: "rat list option"

text \<open>
  \<open>get_time_step\<close> and \<open>get_current_time\<close> return the lines they print together with
  their result. In the \<open>else\<close> branch of the series lookup nothing is assigned, so the
  \<open>return\<close> that follows the \<open>print\<close> reads an unbound local.
\<close>

definition get_time_step :: "transient_settings \<Rightarrow> nat \<Rightarrow> string list \<times> (error + rat)" where
  "get_time_step tset time_iter =
     (case time_step tset of
        Convertible dt \<Rightarrow> ([], Inr dt)
      | NotConvertible \<Rightarrow>
          (case time_series tset of
             None \<Rightarrow> ([], Inl (KeyError ''time_series''))
           | Some ts \<Rightarrow>
               if length ts \<ge> time_iter then
                 (if time_iter < length ts
                  then ([], Inr (ts ! time_iter - ts ! time_iter))
                  else ([], Inl IndexError))
               else ([''time step can only be a sequence or scalar''],
                     Inl (UnboundLocalError ''dt''))))"

definition series_time_point :: "transient_settings \<Rightarrow> nat \<Rightarrow> string list \<times> (error + rat)" where
  "series_time_point tset time_iter =
     (case time_series tset of
        None \<Rightarrow> ([], Inl (KeyError ''time_series''))
      | Some ts \<Rightarrow>
          if length ts \<ge> time_iter then
            (if time_iter < length ts
             then ([], Inr (ts ! time_iter))
             else ([], Inl IndexError))
          else ([''time point can only be a sequence of time series or derived from constant time step''],
                Inl (UnboundLocalError ''tp'')))"

text \<open>
  \<open>get_current_time(self, time_iter_=None)\<close>: an argument of \<open>None\<close> or \<open>0\<close> is replaced
  by \<open>self.current_step\<close>; \<open>time_iter_ - 1\<close> is an integer and may be \<open>-1\<close>.
\<close>

definition get_current_time :: "transient_settings \<Rightarrow> nat \<Rightarrow> nat option \<Rightarrow> string list \<times> (error + rat)" where
  "get_current_time tset cur_step arg =
     (let time_iter = (case arg of None \<Rightarrow> cur_step | Some k \<Rightarrow> if k = 0 then cur_step else k)
      in case (time_step tset, starting_time tset) of
           (Convertible dt, Some t0) \<Rightarrow> ([], Inr (t0 + dt * (of_nat time_iter - 1)))
         | _ \<Rightarrow> series_time_point tset time_iter)"

section \<open>Constraints and weak-form terms\<close>

text \<open>
  The symbolic objects the solver hands to the finite-element library.
  \<open>Whole\<close> is the function space \<open>V\<close>, \<open>Sub i\<close> is \<open>V.sub(i)\<close> and \<open>SubSub i j\<close> is
  \<open>V.sub(i).sub(j)\<close>. \<open>DirichletBC space value boundary_id\<close> is
  \<open>DirichletBC(space, value, self.boundary_facets, boundary_id)\<close>; \<open>PointSourceBC\<close> is the
  object appended for a point source.
\<close>

datatype space = Whole | Sub nat | SubSub nat nat

datatype constraint = DirichletBC space pyval pyval | PointSourceBC pyval

text \<open>
  Expressions: \<open>Obj v\<close> is a translated or configured value used as it is, \<open>FacetNormal\<close>
  the outward normal of the mesh, \<open>PyFloat a\<close> a Python number, \<open>Times\<close>, \<open>Over\<close> and
  \<open>Dot\<close> the product, quotient and \<open>dot\<close> of the form language.
\<close>

datatype ufl =
    Obj pyval
  | FacetNormal
  | PyFloat rat
  | Times ufl ufl
  | Over ufl ufl
  | Dot ufl ufl

text \<open>
  Terms of the form \<open>F\<close>: \<open>Stiffness\<close> is \<open>inner(sigma(u), grad(v))*dx\<close>;
  \<open>Inertial rho a\<close> is the subtracted \<open>rho * inner(a, v) * dx\<close>, with \<open>a\<close> the coefficient
  vector of the acceleration; \<open>BoundaryTerm g (Some i)\<close> is \<open>dot(g, v)*ds(i)\<close> and
  \<open>BoundaryTerm g None\<close> is \<open>dot(g, v)*ds\<close>; \<open>BodyTerm b\<close> is \<open>inner(b, v)*dx\<close>;
  \<open>ThermalTerm T\<close> is the subtracted \<open>inner(thermal_stress(T), grad(v))*dx\<close>.
\<close>

datatype weak_term =
    Stiffness
  | Inertial rat "rat list"
  | BoundaryTerm ufl "pyval option"
  | BodyTerm pyval
  | ThermalTerm pyval

section \<open>Python floats\<close>

text \<open>
  A Python float is an IEEE 754 double; its value is a rational. The sum of two floats
  is the exact sum rounded to the nearest double, ties to the even significand. For a
  value \<open>x\<close> with \<open>2^e \<le> |x| < 2^(e+1)\<close> the doubles around it are the multiples of
  \<open>2^(e-52)\<close> (the normal range; overflow and subnormal values are left out).
\<close>

fun bit_length :: "nat \<Rightarrow> nat" where
  "bit_length n = (if n = 0 then 0 else Suc (bit_length (n div 2)))"

declare bit_length.simps [simp del]

definition binary_exponent :: "rat \<Rightarrow> int" where
  "binary_exponent x =
     (if 1 \<le> x then int (bit_length (nat \<lfloor>x\<rfloor>)) - 1
      else - int (bit_length (nat (\<lceil>1 / x\<rceil> - 1))))"

definition two_to :: "int \<Rightarrow> rat" where
  "two_to e = (if 0 \<le> e then 2 ^ nat e else 1 / 2 ^ nat (- e))"

definition round_half_even :: "rat \<Rightarrow> int" where
  "round_half_even x =
     (let f = \<lfloor>x\<rfloor>; r = x - of_int f
      in if r < 1/2 then f else if 1/2 < r then f + 1 else if even f then f else f + 1)"

definition double_round :: "rat \<Rightarrow> rat" where
  "double_round x =
     (if x = 0 then 0
      else (let ulp = two_to (binary_exponent \<bar>x\<bar> - 52)
            in of_int (round_half_even (x / ulp)) * ulp))"

definition double_plus :: "rat \<Rightarrow> rat \<Rightarrow> rat" where
  "double_plus a b = double_round (a + b)"

section \<open>The solver object\<close>

type_synonym field = "rat list"

text \<open>
  What the driver prints and the external actions it triggers, in order:
  \<open>Status k t\<close> is the line \<open>Current step = k time = t\<close> printed once per iteration
  after the step has been solved, \<open>Plotted k\<close> a call of \<open>self.plot()\<close>, \<open>Saved f k t\<close>
  a call of \<open>self.save(f)\<close> with its message, \<open>Printed l\<close> any other printed line.
\<close>

datatype event = Status nat rat | Plotted nat | Saved string nat rat | Printed string

record report_settings =
  plotting_freq :: int
  saving_freq :: "int option"
  result_filename :: "string option"

text \<open>The entries of \<open>self.settings\<close> that the modelled methods read; \<open>None\<close> is an absent key.\<close>

record case_settings =
  scalar_name :: "string option"
  vector_name :: "string option"
  point_source :: "pyval option"
  surface_source :: "pyval option"
  temperature_setting :: "pyval option"

text \<open>The entries of \<open>self.material\<close> that are read, numbers when present.\<close>

record material_properties =
  elastic_modulus :: "rat option"
  poisson_ratio :: "rat option"
  density :: "rat option"
  thermal_expansion_coefficient :: "rat option"

text \<open>
  The attributes of \<open>SolverBase\<close>. \<open>boundary_conditions\<close> is the ordered dictionary
  of boundary records, \<open>reference_temperature\<close> is
  \<open>self.reference_values['temperature']\<close> when present, \<open>temperature_distribution\<close>
  is \<open>None\<close> until the attribute has been set, \<open>boundary_area i\<close> is what
  \<open>assemble(Constant(1)*ds(i, domain=self.mesh))\<close> measures and \<open>path_exists\<close> is
  \<open>os.path.exists\<close>. \<open>time_plus\<close> is the addition Python performs on the
  driver's times: the exact sum while the times are Python integers, \<open>double_plus\<close> as
  soon as an operand is a float.
\<close>

record solver =
  settings :: case_settings
  boundary_conditions :: "(string \<times> pyval) list"
  dimension :: nat
  is_mixed_function_space :: bool
  tsettings :: transient_settings
  rsettings :: report_settings
  material :: material_properties
  reference_temperature :: "rat option"
  body_source :: "pyval option"
  temperature_distribution :: "pyval option"
  boundary_area :: "pyval \<Rightarrow> rat"
  path_exists :: "string \<Rightarrow> bool"
  time_plus :: "rat \<Rightarrow> rat \<Rightarrow> rat"
  current_time :: rat
  current_step :: nat
  w_current :: field
  w_prev :: field
  w_pp :: field
  events :: "event list"

text \<open>\<open>LinearElasticitySolver\<close> extends \<open>SolverBase\<close> by two flags.\<close>

record le_solver = solver +
  solving_modal :: bool
  solving_dynamics :: bool

datatype 's outcome = Returned 's | Raised error 's

section \<open>The transient driver\<close>

text \<open>
  \<open>generate_form\<close> and \<open>solve_form\<close> are supplied by the derived class: they are
  parameters \<open>gen\<close> and \<open>slv\<close> here. \<open>gen\<close> returns the form, the hard constraints and
  the solver object as it has left it.
\<close>

definition solve_current_step ::
  "('a solver_scheme \<Rightarrow> nat \<Rightarrow> error + (weak_term list \<times> constraint list \<times> 'a solver_scheme))
   \<Rightarrow> ('a solver_scheme \<Rightarrow> weak_term list \<Rightarrow> field \<Rightarrow> constraint list \<Rightarrow> error + field)
   \<Rightarrow> 'a solver_scheme \<Rightarrow> 'a solver_scheme outcome" where
  "solve_current_step gen slv s =
     (case gen s (current_step s) of
        Inl e \<Rightarrow> Raised e s
      | Inr (F, bcs, s1) \<Rightarrow>
          (let s2 = s1\<lparr>w_pp := w_prev s1\<rparr>;
               s3 = s2\<lparr>w_prev := w_current s2\<rparr>
           in case slv s3 F (w_current s3) bcs of
                Inl e \<Rightarrow> Raised e s3
              | Inr u \<Rightarrow> Returned (s3\<lparr>w_current := u\<rparr>)))"

definition report_step :: "string \<Rightarrow> 'a solver_scheme \<Rightarrow> 'a solver_scheme" where
  "report_step fname s =
     (let k = current_step s;
          t = current_time s;
          pf = plotting_freq (rsettings s);
          s1 = s\<lparr>events := events s @ [Status k t]\<rparr>;
          s2 = (if pf > 0 \<and> k > 0 \<and> int k mod pf = 0
                then s1\<lparr>events := events s1 @ [Plotted k]\<rparr> else s1)
      in case saving_freq (rsettings s) of
           None \<Rightarrow> s2
         | Some sf \<Rightarrow>
             if sf \<noteq> 0 \<and> sf > 0 \<and> k > 0 \<and> int k mod sf = 0
             then s2\<lparr>events := events s2 @ [Saved fname k t]\<rparr> else s2)"

partial_function (option) time_loop ::
  "('a solver_scheme \<Rightarrow> nat \<Rightarrow> error + (weak_term list \<times> constraint list \<times> 'a solver_scheme))
   \<Rightarrow> ('a solver_scheme \<Rightarrow> weak_term list \<Rightarrow> field \<Rightarrow> constraint list \<Rightarrow> error + field)
   \<Rightarrow> rat \<Rightarrow> string \<Rightarrow> 'a solver_scheme \<Rightarrow> 'a solver_scheme outcome option" where
  "time_loop gen slv t_end fname s =
     (if current_time s < t_end then
        (case (if transient (tsettings s) then get_time_step (tsettings s) (current_step s)
               else ([], Inr 1)) of
           (out, Inl e) \<Rightarrow> Some (Raised e (s\<lparr>events := events s @ map Printed out\<rparr>))
         | (out, Inr dt) \<Rightarrow>
             (case solve_current_step gen slv (s\<lparr>events := events s @ map Printed out\<rparr>) of
                Raised e s1 \<Rightarrow> Some (Raised e s1)
              | Returned s1 \<Rightarrow>
                  (let s2 = report_step fname s1
                   in if \<not> transient (tsettings s2) then Some (Returned s2)
                      else time_loop gen slv t_end fname
                             (s2\<lparr>current_step := current_step s2 + 1,
                                 current_time := time_plus s2 (current_time s2) dt\<rparr>))))
      else Some (Returned s))"

text \<open>
  \<open>solve_transient\<close>, started once \<open>get_initial_field()\<close> has returned \<open>u0\<close>. A missing
  \<open>starting_time\<close>, or a missing \<open>ending_time\<close> in transient mode, is a \<open>KeyError\<close>.
  The two sums, \<open>self.current_time + 1\<close> and \<open>self.current_time += dt\<close>, are Python's.
\<close>

definition solve_transient ::
  "('a solver_scheme \<Rightarrow> nat \<Rightarrow> error + (weak_term list \<times> constraint list \<times> 'a solver_scheme))
   \<Rightarrow> ('a solver_scheme \<Rightarrow> weak_term list \<Rightarrow> field \<Rightarrow> constraint list \<Rightarrow> error + field)
   \<Rightarrow> field \<Rightarrow> 'a solver_scheme \<Rightarrow> 'a solver_scheme outcome option" where
  "solve_transient gen slv u0 s =
     (let s0 = s\<lparr>w_current := u0, w_prev := u0, w_pp := u0\<rparr>
      in case starting_time (tsettings s0) of
           None \<Rightarrow> Some (Raised (KeyError ''starting_time'') s0)
         | Some t0 \<Rightarrow>
             (let s1 = s0\<lparr>current_time := t0, current_step := 0\<rparr>;
                  fname = (case result_filename (rsettings s1) of
                             None \<Rightarrow> ''result_file.pvd''
                           | Some f \<Rightarrow> if f = [] then ''result_file.pvd'' else f)
              in if transient (tsettings s1) then
                   (case ending_time (tsettings s1) of
                      None \<Rightarrow> Some (Raised (KeyError ''ending_time'') s1)
                    | Some t_end \<Rightarrow> time_loop gen slv t_end fname s1)
                 else time_loop gen slv (time_plus s1 (current_time s1) 1) fname s1))"

text \<open>
  The configuration shipped with the source (\<open>default_case_settings\<close> and
  \<open>default_report_settings\<close>).
\<close>

definition default_transient_settings :: transient_settings where
  "default_transient_settings =
     \<lparr>transient = False, starting_time = Some 0, time_step = Convertible (1/100),
      ending_time = Some (3/100), time_series = None\<rparr>"

definition default_report_settings :: report_settings where
  "default_report_settings =
     \<lparr>plotting_freq = 10, saving_freq = Some 10, result_filename = None\<rparr>"

subsection \<open>Reading a run\<close>




text \<open>
  Reading the loop: \<open>result_file\<close> is the file name the driver saves to, \<open>and_then\<close>
  passes a returned state on and lets an exception through, and \<open>iteration\<close> is one pass
  through the body of the loop in transient mode: \<open>solve_current_step\<close>, the report, the
  step and time advanced by \<open>dt\<close>.
\<close>

definition result_file :: "report_settings \<Rightarrow> string" where
  "result_file rs =
     (case result_filename rs of
        None \<Rightarrow> ''result_file.pvd''
      | Some f \<Rightarrow> if f = [] then ''result_file.pvd'' else f)"



text \<open>
  A solver object for a three-dimensional mesh with no boundary conditions and a
  steel-like material, loaded with the default transient and report settings, whose
  times add exactly, and the simplest derived class: its form is the stiffness term alone and its solve returns the
  field it was given.
\<close>

definition plain_solver :: solver where
  "plain_solver =
     \<lparr>settings = \<lparr>scalar_name = None, vector_name = Some ''displacement'', point_source = None,
                   surface_source = None, temperature_setting = None\<rparr>,
      boundary_conditions = [],
      dimension = 3,
      is_mixed_function_space = False,
      tsettings = default_transient_settings,
      rsettings = default_report_settings,
      material = \<lparr>elastic_modulus = Some 200000000000, poisson_ratio = Some (3/10),
                  density = Some 7800, thermal_expansion_coefficient = None\<rparr>,
      reference_temperature = None,
      body_source = None,
      temperature_distribution = None,
      boundary_area = (\<lambda>i. 1),
      path_exists = (\<lambda>p. False),
      time_plus = (\<lambda>a b. a + b),
      current_time = 0,
      current_step = 0,
      w_current = [],
      w_prev = [],
      w_pp = [],
      events = []\<rparr>"

definition stiffness_only ::
  "'a solver_scheme \<Rightarrow> nat \<Rightarrow> error + (weak_term list \<times> constraint list \<times> 'a solver_scheme)" where
  "stiffness_only s k = Inr ([Stiffness], [], s)"

definition keep_field ::
  "'a solver_scheme \<Rightarrow> weak_term list \<Rightarrow> field \<Rightarrow> constraint list \<Rightarrow> error + field" where
  "keep_field s F u bcs = Inr u"

section \<open>Value translation\<close>

text \<open>Dictionary access, truth values and type tests of the configuration values.\<close>

definition py_item :: "pyval \<Rightarrow> string \<Rightarrow> error + pyval" where
  "py_item d key =
     (case d of
        PDict kv \<Rightarrow> (case map_of kv key of None \<Rightarrow> Inl (KeyError key) | Some v \<Rightarrow> Inr v)
      | _ \<Rightarrow> Inl (TypeError ''object is not subscriptable by a string''))"

definition has_key :: "(string \<times> pyval) list \<Rightarrow> string \<Rightarrow> bool" where
  "has_key kv key = (map_of kv key \<noteq> None)"

fun truthy :: "pyval \<Rightarrow> bool" where
  "truthy PNone = False"
| "truthy (PNum r) = (r \<noteq> 0)"
| "truthy (PStr s) = (s \<noteq> [])"
| "truthy (PList xs) = (xs \<noteq> [])"
| "truthy (PTuple xs) = (xs \<noteq> [])"
| "truthy (PDict kv) = (kv \<noteq> [])"
| "truthy v = True"

fun is_number :: "pyval \<Rightarrow> bool" where
  "is_number (PNum r) = True"
| "is_number v = False"

fun is_str :: "pyval \<Rightarrow> bool" where
  "is_str (PStr s) = True"
| "is_str v = False"

fun is_sequence :: "pyval \<Rightarrow> bool" where
  "is_sequence (PList xs) = True"
| "is_sequence (PTuple xs) = True"
| "is_sequence v = False"

fun items :: "pyval \<Rightarrow> pyval list" where
  "items (PList xs) = xs"
| "items (PTuple xs) = xs"
| "items v = []"

text \<open>
  \<open>Constant(value)\<close> accepts a number or a tuple of numbers; the library rejects
  anything else (\<open>None\<close>, expression strings, nested values).
\<close>

definition mk_Constant :: "pyval \<Rightarrow> error + pyval" where
  "mk_Constant v =
     (if is_number v \<or> (is_sequence v \<and> list_all is_number (items v))
      then Inr (PConstant (if is_sequence v then PTuple (items v) else v))
      else Inl (UflError ''Constant: value is not numeric''))"

text \<open>
  The sequence branch of \<open>translate_value\<close>; \<open>is_list\<close> tells a list from a tuple.
  A list of expression strings is first wrapped into \<open>Constant(tuple(value))\<close>, which the
  library rejects. In the last branch the source only prints, so the \<open>return\<close> reads the
  unassigned \<open>values_0\<close>.
\<close>

definition translate_sequence :: "'a solver_scheme \<Rightarrow> bool \<Rightarrow> pyval list \<Rightarrow> error + pyval" where
  "translate_sequence s is_list xs =
     (if length xs = dimension s \<and> xs = [] then Inl IndexError
      else if length xs = dimension s \<and> is_number (hd xs) then mk_Constant (PTuple xs)
      else if length xs = dimension s \<and> is_str (hd xs) then
        (if is_list then
           (case mk_Constant (PTuple xs) of
              Inl e \<Rightarrow> Inl e
            | Inr c \<Rightarrow> Inl (UflError ''Expression: a Constant is not an expression string''))
         else if list_all is_str xs then Inr (PInterpolated (PTuple xs))
         else Inl (UflError ''Expression: entry is not an expression string''))
      else if transient (tsettings s) \<and> length xs > dimension s then
        (if current_step s < length xs then Inr (xs ! current_step s) else Inl IndexError)
      else Inl (UnboundLocalError ''values_0''))"

text \<open>
  \<open>translate_value(self, value)\<close>, the branches in the order of the source. An
  interpolated or loaded field is a \<open>Function\<close>. A callable is called with
  \<open>self.get_current_time()\<close> in transient mode only; otherwise it falls to the last
  branch and is passed through, as a dictionary or any other object is.
\<close>

definition translate_value :: "'a solver_scheme \<Rightarrow> pyval \<Rightarrow> error + pyval" where
  "translate_value s v =
     (case v of
        PList xs \<Rightarrow> translate_sequence s True xs
      | PTuple xs \<Rightarrow> translate_sequence s False xs
      | PNum r \<Rightarrow> Inr (PConstant v)
      | PConstant c \<Rightarrow> Inr v
      | PFunction f \<Rightarrow> Inr v
      | PInterpolated e \<Rightarrow> Inr v
      | PLoaded p \<Rightarrow> Inr v
      | PExpression e \<Rightarrow> Inr v
      | PCallable f \<Rightarrow>
          if transient (tsettings s) then
            (case snd (get_current_time (tsettings s) (current_step s) None) of
               Inl e \<Rightarrow> Inl e
             | Inr t \<Rightarrow> Inr (f t))
          else Inr v
      | PStr p \<Rightarrow> if path_exists s p then Inr (PLoaded p) else Inr (PInterpolated v)
      | PNone \<Rightarrow> Inl (TypeError ''None type is supplied as value to be translated'')
      | PDict kv \<Rightarrow> Inr v
      | PObject n \<Rightarrow> Inr v)"

section \<open>Boundary records\<close>

definition get_variable_name :: "'a solver_scheme \<Rightarrow> string" where
  "get_variable_name s =
     (case scalar_name (settings s) of
        Some n \<Rightarrow> n
      | None \<Rightarrow> (case vector_name (settings s) of Some n \<Rightarrow> n | None \<Rightarrow> ''unknown''))"

text \<open>Python's \<open>'variable' in vbc\<close> for a string \<open>vbc\<close> is a substring test.\<close>

fun starts_with :: "string \<Rightarrow> string \<Rightarrow> bool" where
  "starts_with [] t = True"
| "starts_with (c # cs) [] = False"
| "starts_with (c # cs) (d # ds) = (c = d \<and> starts_with cs ds)"

fun has_substring :: "string \<Rightarrow> string \<Rightarrow> bool" where
  "has_substring p [] = (p = [])"
| "has_substring p (d # ds) = (starts_with p (d # ds) \<or> has_substring p ds)"

text \<open>
  The loop of \<open>get_boundary_variable\<close> over a \<open>values\<close> list: the last entry whose
  \<open>variable\<close> equals the variable name wins. An entry that is not a dictionary but
  contains \<open>'variable'\<close> cannot be indexed by it; a number or \<open>None\<close> cannot be searched.
\<close>

fun select_variable :: "string \<Rightarrow> pyval \<Rightarrow> pyval list \<Rightarrow> error + pyval" where
  "select_variable var cur [] = Inr cur"
| "select_variable var cur (PDict kv # rest) =
     (if has_key kv ''variable'' \<and> map_of kv ''variable'' = Some (PStr var)
      then select_variable var (PDict kv) rest
      else select_variable var cur rest)"
| "select_variable var cur (PList xs # rest) =
     (if PStr ''variable'' \<in> set xs then Inl (TypeError ''list indices must be integers'')
      else select_variable var cur rest)"
| "select_variable var cur (PTuple xs # rest) =
     (if PStr ''variable'' \<in> set xs then Inl (TypeError ''tuple indices must be integers'')
      else select_variable var cur rest)"
| "select_variable var cur (PStr t # rest) =
     (if has_substring ''variable'' t then Inl (TypeError ''string indices must be integers'')
      else select_variable var cur rest)"
| "select_variable var cur (v # rest) = Inl (TypeError ''argument is not iterable'')"

text \<open>
  \<open>get_boundary_variable(self, bc)\<close> for a boundary record \<open>bc\<close> (a dictionary),
  called without \<open>variable\<close>.
\<close>

definition get_boundary_variable :: "'a solver_scheme \<Rightarrow> (string \<times> pyval) list \<Rightarrow> error + pyval" where
  "get_boundary_variable s bc =
     (let var = get_variable_name s
      in case map_of bc ''values'' of
           None \<Rightarrow> Inr (PDict bc)
         | Some (PDict vals) \<Rightarrow>
             (case map_of vals var of None \<Rightarrow> Inr (PDict bc) | Some b \<Rightarrow> Inr b)
         | Some (PList vals) \<Rightarrow> select_variable var (PDict bc) vals
         | Some other \<Rightarrow> Inr (PDict bc))"

section \<open>Resolving boundary conditions\<close>

text \<open>
  The per-axis loop of a displacement record: \<open>None\<close> leaves the axis free, any other
  entry (a zero included) is translated and constrains the sub-space \<open>sp axis\<close>.
\<close>

fun axis_constraints ::
  "'a solver_scheme \<Rightarrow> (nat \<Rightarrow> space) \<Rightarrow> pyval \<Rightarrow> nat \<Rightarrow> pyval list \<Rightarrow> error + constraint list" where
  "axis_constraints s sp i axis [] = Inr []"
| "axis_constraints s sp i axis (PNone # rest) = axis_constraints s sp i (axis + 1) rest"
| "axis_constraints s sp i axis (disp # rest) =
     (case translate_value s disp of
        Inl e \<Rightarrow> Inl e
      | Inr v \<Rightarrow>
          (case axis_constraints s sp i (axis + 1) rest of
             Inl e \<Rightarrow> Inl e
           | Inr cs \<Rightarrow> Inr (DirichletBC (sp axis) v i # cs)))"

definition whole_constraint :: "'a solver_scheme \<Rightarrow> space \<Rightarrow> pyval \<Rightarrow> pyval \<Rightarrow> error + constraint list" where
  "whole_constraint s sp i bv =
     (case translate_value s bv of Inl e \<Rightarrow> Inl e | Inr v \<Rightarrow> Inr [DirichletBC sp v i])"

text \<open>
  The branch \<open>bc['type'] == 'Dirichlet' or bc['type'] == 'displacement'\<close>, for the
  record \<open>b\<close> and boundary id \<open>i\<close>. In a mixed space the sub-fields are displacement 0,
  velocity 1, pressure 2.
\<close>

definition dirichlet_constraints ::
  "'a solver_scheme \<Rightarrow> (string \<times> pyval) list \<Rightarrow> pyval \<Rightarrow> error + constraint list" where
  "dirichlet_constraints s b i =
     (if \<not> is_mixed_function_space s then
        (case map_of b ''value'' of
           None \<Rightarrow> Inl (KeyError ''value'')
         | Some bv \<Rightarrow>
             if is_sequence bv \<and> length (items bv) = dimension s
             then axis_constraints s Sub i 0 (items bv)
             else whole_constraint s Whole i bv)
      else
        (case map_of b ''value'' of
           None \<Rightarrow> Inr []
         | Some bv \<Rightarrow>
             (case map_of b ''variable'' of
                None \<Rightarrow> Inl (KeyError ''variable'')
              | Some var \<Rightarrow>
                  if var = PStr ''displacement'' then
                    (if is_sequence bv \<and> length (items bv) = dimension s
                        \<and> \<not> list_all truthy (items bv)
                     then axis_constraints s (SubSub 0) i 0 (items bv)
                     else whole_constraint s (Sub 0) i bv)
                  else if var = PStr ''velocity'' then whole_constraint s (Sub 1) i bv
                  else if var = PStr ''all'' then whole_constraint s Whole i bv
                  else Inl (SolverError ''Error, boundary setting is not supported: '' []))))"

text \<open>\<open>get_flux\<close> passes the traction through in the linear solver.\<close>

definition get_flux :: "ufl \<Rightarrow> ufl" where
  "get_flux g = g"

definition direction_of :: "(string \<times> pyval) list \<Rightarrow> ufl" where
  "direction_of b =
     (case map_of b ''direction'' of
        None \<Rightarrow> FacetNormal
      | Some d \<Rightarrow> if truthy d then Obj d else FacetNormal)"

text \<open>\<open>bc_force / bc_area\<close>: a zero area is rejected, by Python for a number and by the form language otherwise.\<close>

definition force_over_area :: "pyval \<Rightarrow> rat \<Rightarrow> error + ufl" where
  "force_over_area bc_force bc_area =
     (if bc_area = 0 then
        (if is_number bc_force then Inl ZeroDivisionError else Inl (UflError ''Division by zero!''))
      else Inr (Over (Obj bc_force) (PyFloat bc_area)))"

definition force_term :: "'a solver_scheme \<Rightarrow> (string \<times> pyval) list \<Rightarrow> pyval \<Rightarrow> error + weak_term" where
  "force_term s b i =
     (case map_of b ''value'' of
        None \<Rightarrow> Inl (KeyError ''value'')
      | Some fv \<Rightarrow>
          if is_sequence fv \<and> length (items fv) = dimension s then
            (case mk_Constant fv of
               Inl e \<Rightarrow> Inl e
             | Inr force_vector \<Rightarrow> Inr (BoundaryTerm (get_flux (Obj force_vector)) (Some i)))
          else
            (case translate_value s fv of
               Inl e \<Rightarrow> Inl e
             | Inr bc_force \<Rightarrow>
                 (case map_of b ''boundary_id'' of
                    None \<Rightarrow> Inl (KeyError ''boundary_id'')
                  | Some bid \<Rightarrow>
                      (case force_over_area bc_force (boundary_area s bid) of
                         Inl e \<Rightarrow> Inl e
                       | Inr g \<Rightarrow>
                           Inr (BoundaryTerm (get_flux (Times (direction_of b) g)) (Some i))))))"

definition pressure_term :: "'a solver_scheme \<Rightarrow> (string \<times> pyval) list \<Rightarrow> pyval \<Rightarrow> error + weak_term" where
  "pressure_term s b i =
     (case map_of b ''value'' of
        None \<Rightarrow> Inl (KeyError ''value'')
      | Some pv \<Rightarrow>
          (case translate_value s pv of
             Inl e \<Rightarrow> Inl e
           | Inr p \<Rightarrow> Inr (BoundaryTerm (get_flux (Times (direction_of b) (Obj p))) (Some i))))"

fun is_Constant :: "pyval \<Rightarrow> bool" where
  "is_Constant (PConstant c) = True"
| "is_Constant v = False"

definition stress_term :: "'a solver_scheme \<Rightarrow> (string \<times> pyval) list \<Rightarrow> pyval \<Rightarrow> error + weak_term" where
  "stress_term s b i =
     (case map_of b ''value'' of
        None \<Rightarrow> Inl (KeyError ''value'')
      | Some sv \<Rightarrow>
          (case translate_value s sv of
             Inl e \<Rightarrow> Inl e
           | Inr g \<Rightarrow>
               Inr (BoundaryTerm
                      (get_flux (if is_Constant g then Obj g else Dot (Obj g) FacetNormal))
                      (Some i))))"

text \<open>
  The body of the loop over \<open>self.boundary_conditions.items()\<close> for one record: the
  constraints and the weak-form terms it appends, or the exception it raises.
\<close>

definition resolve_boundary ::
  "'a solver_scheme \<Rightarrow> pyval \<Rightarrow> error + (constraint list \<times> weak_term list)" where
  "resolve_boundary s bc_settings =
     (case py_item bc_settings ''boundary_id'' of
        Inl e \<Rightarrow> Inl e
      | Inr i \<Rightarrow>
          (case get_boundary_variable s (case bc_settings of PDict d \<Rightarrow> d | _ \<Rightarrow> []) of
             Inl e \<Rightarrow> Inl e
           | Inr bc \<Rightarrow>
               (case py_item bc ''type'' of
                  Inl e \<Rightarrow> Inl e
                | Inr t \<Rightarrow>
                    (let b = (case bc of PDict d \<Rightarrow> d | _ \<Rightarrow> [])
                     in if t = PStr ''Dirichlet'' \<or> t = PStr ''displacement'' then
                          (case dirichlet_constraints s b i of
                             Inl e \<Rightarrow> Inl e | Inr cs \<Rightarrow> Inr (cs, []))
                        else if t = PStr ''force'' then
                          (case force_term s b i of Inl e \<Rightarrow> Inl e | Inr w \<Rightarrow> Inr ([], [w]))
                        else if t = PStr ''pressure'' then
                          (case pressure_term s b i of Inl e \<Rightarrow> Inl e | Inr w \<Rightarrow> Inr ([], [w]))
                        else if t = PStr ''stress'' then
                          (case stress_term s b i of Inl e \<Rightarrow> Inl e | Inr w \<Rightarrow> Inr ([], [w]))
                        else if t = PStr ''Neumann'' then
                          Inl (SolverError ''Neumann boundary type`{}` is not supported'' [t])
                        else if t = PStr ''symmetry'' then
                          Inl (SolverError ''symmetry boundary type`{}` is not supported'' [t])
                        else Inl (SolverError ''boundary type`{}` is not supported'' [t])))))"

fun resolve_all ::
  "'a solver_scheme \<Rightarrow> (string \<times> pyval) list \<Rightarrow> constraint list \<times> weak_term list
     \<Rightarrow> error + (constraint list \<times> weak_term list)" where
  "resolve_all s [] acc = Inr acc"
| "resolve_all s ((name, bc_settings) # rest) (bcs, integrals_N) =
     (case resolve_boundary s bc_settings of
        Inl e \<Rightarrow> Inl e
      | Inr (cs, ws) \<Rightarrow> resolve_all s rest (bcs @ cs, integrals_N @ ws))"

text \<open>
  What precedes the loop. For a point source the source appends
  \<open>self.settings['surface_source']\<close>; a surface source with a direction adds no term.
\<close>

definition source_terms :: "'a solver_scheme \<Rightarrow> error + (constraint list \<times> weak_term list)" where
  "source_terms s =
     (case (case point_source (settings s) of
              None \<Rightarrow> Inr []
            | Some p \<Rightarrow>
                if truthy p then
                  (case surface_source (settings s) of
                     None \<Rightarrow> Inl (KeyError ''surface_source'')
                   | Some ps \<Rightarrow> Inr [PointSourceBC ps])
                else Inr []) of
        Inl e \<Rightarrow> Inl e
      | Inr bcs \<Rightarrow>
          (case surface_source (settings s) of
             None \<Rightarrow> Inr (bcs, [])
           | Some ss \<Rightarrow>
               if truthy ss then
                 (case py_item ss ''value'' of
                    Inl e \<Rightarrow> Inl e
                  | Inr gS \<Rightarrow>
                      (case py_item ss ''direction'' of
                         Inl e \<Rightarrow> Inr (bcs, [BoundaryTerm (Times FacetNormal (get_flux (Obj gS))) None])
                       | Inr d \<Rightarrow>
                           if truthy d then Inr (bcs, [])
                           else Inr (bcs, [BoundaryTerm (Times FacetNormal (get_flux (Obj gS))) None])))
               else Inr (bcs, [])))"

definition update_boundary_conditions ::
  "'a solver_scheme \<Rightarrow> nat \<Rightarrow> error + (constraint list \<times> weak_term list)" where
  "update_boundary_conditions s time_iter =
     (case source_terms s of
        Inl e \<Rightarrow> Inl e
      | Inr acc \<Rightarrow> resolve_all s (boundary_conditions s) acc)"

text \<open>
  A record that clamps axes 0 and 2 of boundary 1 and leaves axis 1 free.
\<close>

definition fixed_record :: "(string \<times> pyval) list" where
  "fixed_record =
     [(''boundary_id'', PNum 1), (''type'', PStr ''Dirichlet''),
      (''value'', PList [PNum 0, PNone, PNum (1/1000)])]"

text \<open>A record of the unsupported type \<open>symmetry\<close> on boundary 2.\<close>

definition mirror_record :: "(string \<times> pyval) list" where
  "mirror_record = [(''boundary_id'', PNum 2), (''type'', PStr ''symmetry'')]"

subsection \<open>Reading a traction\<close>






section \<open>Boundary values\<close>

text \<open>
  Iterating a configuration value: a list or tuple yields its entries, a dictionary its
  keys, a string its characters; \<open>None\<close>, a number or another object cannot be iterated.
\<close>

definition py_iter :: "pyval \<Rightarrow> error + pyval list" where
  "py_iter v =
     (case v of
        PList xs \<Rightarrow> Inr xs
      | PTuple xs \<Rightarrow> Inr xs
      | PDict kv \<Rightarrow> Inr (map (\<lambda>(k, x). PStr k) kv)
      | PStr cs \<Rightarrow> Inr (map (\<lambda>c. PStr [c]) cs)
      | _ \<Rightarrow> Inl (TypeError ''object is not iterable''))"

text \<open>
  The loop \<open>for vbc in bc['values']\<close> of \<open>get_boundary_value\<close>; \<open>cur\<close> is the local
  \<open>bvalue\<close>, \<open>None\<close> while it is unassigned.
\<close>

fun scan_values :: "string \<Rightarrow> pyval option \<Rightarrow> pyval list \<Rightarrow> error + pyval option" where
  "scan_values var cur [] = Inr cur"
| "scan_values var cur (vbc # rest) =
     (case py_item vbc ''variable'' of
        Inl e \<Rightarrow> Inl e
      | Inr x \<Rightarrow>
          if x = PStr var then
            (case py_item vbc ''value'' of
               Inl e \<Rightarrow> Inl e
             | Inr v \<Rightarrow> scan_values var (Some v) rest)
          else scan_values var cur rest)"

text \<open>
  \<open>get_boundary_value(self, bc, variable=None)\<close> up to its \<open>return\<close>: the exception
  raised before the \<open>return\<close> is reached, or the local \<open>bvalue\<close> there.
\<close>

definition boundary_raw_value ::
  "'a solver_scheme \<Rightarrow> (string \<times> pyval) list \<Rightarrow> string option \<Rightarrow> error + pyval option" where
  "boundary_raw_value s bc variable =
     (case map_of bc ''values'' of
        Some vals \<Rightarrow>
          (let var = (case variable of
                        None \<Rightarrow> get_variable_name s
                      | Some v \<Rightarrow> if v = [] then get_variable_name s else v)
           in case py_iter vals of
                Inl e \<Rightarrow> Inl e
              | Inr xs \<Rightarrow> scan_values var None xs)
      | None \<Rightarrow>
          (case map_of bc ''value'' of
             None \<Rightarrow> Inl (KeyError ''value'')
           | Some v \<Rightarrow> Inr (Some v)))"

text \<open>
  The \<open>return translate_value(bvalue)\<close> names a global, not the method
  \<open>self.translate_value\<close>. The module binds no global of that name itself, so the name
  resolves only if \<open>from dolfin import *\<close> binds it: \<open>imported\<close> maps the names that
  import binds to callables. The callee is looked up before its argument is read.
\<close>

definition get_boundary_value ::
  "(string \<rightharpoonup> (pyval \<Rightarrow> error + pyval)) \<Rightarrow> 'a solver_scheme \<Rightarrow> (string \<times> pyval) list
     \<Rightarrow> string option \<Rightarrow> error + pyval" where
  "get_boundary_value imported s bc variable =
     (case boundary_raw_value s bc variable of
        Inl e \<Rightarrow> Inl e
      | Inr bvalue \<Rightarrow>
          (case imported ''translate_value'' of
             None \<Rightarrow> Inl (NameError ''translate_value'')
           | Some f \<Rightarrow>
               (case bvalue of
                  None \<Rightarrow> Inl (UnboundLocalError ''bvalue'')
                | Some v \<Rightarrow> f v)))"

text \<open>Names the star import does bind, for \<open>Constant\<close> with its model above.\<close>

definition dolfin_names :: "string \<rightharpoonup> (pyval \<Rightarrow> error + pyval)" where
  "dolfin_names = [''Constant'' \<mapsto> mk_Constant]"

section \<open>The form of the linear elasticity solver\<close>

text \<open>
  Fields are coefficient vectors; the sum, difference, scaling and quotient by a
  \<open>Constant\<close> of the form language act entry by entry.
\<close>

definition field_minus :: "field \<Rightarrow> field \<Rightarrow> field" where
  "field_minus u w = map2 (\<lambda>a b. a - b) u w"

definition field_scale :: "rat \<Rightarrow> field \<Rightarrow> field" where
  "field_scale c u = map (\<lambda>a. c * a) u"

definition field_over :: "field \<Rightarrow> rat \<Rightarrow> field" where
  "field_over u c = map (\<lambda>a. a / c) u"

text \<open>\<open>1 / self.get_time_step(k)\<close>, a true division that raises on a zero step.\<close>

definition inverse_time_step :: "transient_settings \<Rightarrow> nat \<Rightarrow> error + rat" where
  "inverse_time_step tset k =
     (case snd (get_time_step tset k) of
        Inl e \<Rightarrow> Inl e
      | Inr dt \<Rightarrow> if dt = 0 then Inl ZeroDivisionError else Inr (1 / dt))"

text \<open>
  \<open>get_acceleration(self, time_iter_)\<close>: the last line divides the velocity difference
  by \<open>Constant(1 / dt)\<close>.
\<close>

definition get_acceleration :: "'a solver_scheme \<Rightarrow> nat \<Rightarrow> error + field" where
  "get_acceleration s time_iter =
     (if \<not> time_iter \<ge> 1 then Inl AssertionError
      else case inverse_time_step (tsettings s) time_iter of
             Inl e \<Rightarrow> Inl e
           | Inr c \<Rightarrow>
               (let vel = field_scale c (field_minus (w_current s) (w_prev s))
                in case inverse_time_step (tsettings s) (time_iter - 1) of
                     Inl e \<Rightarrow> Inl e
                   | Inr c_prev \<Rightarrow>
                       (let vel_prev = field_scale c_prev (field_minus (w_prev s) (w_pp s))
                        in case inverse_time_step (tsettings s) time_iter of
                             Inl e \<Rightarrow> Inl e
                           | Inr c' \<Rightarrow> Inr (field_over (field_minus vel vel_prev) c'))))"

text \<open>
  The Lame parameters computed at the head of \<open>generate_form\<close> and in \<open>sigma\<close>:
  the two material entries must be present and the divisions must be defined.
\<close>

definition lame_parameters :: "material_properties \<Rightarrow> error + (rat \<times> rat)" where
  "lame_parameters m =
     (case elastic_modulus m of
        None \<Rightarrow> Inl (KeyError ''elastic_modulus'')
      | Some E \<Rightarrow>
          (case poisson_ratio m of
             None \<Rightarrow> Inl (KeyError ''poisson_ratio'')
           | Some nu \<Rightarrow>
               if 2 * (1 + nu) = 0 \<or> (1 + nu) * (1 - 2 * nu) = 0 then Inl ZeroDivisionError
               else Inr (E / (2 * (1 + nu)), E * nu / ((1 + nu) * (1 - 2 * nu)))))"

text \<open>
  \<open>thermal_stress(self, T)\<close>, called with the raw setting: the material and reference
  entries it reads, the difference \<open>T - Constant(...)\<close>, which Python defines for a
  number or a library object only, and the division by \<open>1 - 2 nu\<close>.
\<close>

definition thermal_stress :: "'a solver_scheme \<Rightarrow> pyval \<Rightarrow> error + weak_term" where
  "thermal_stress s T =
     (case elastic_modulus (material s) of
        None \<Rightarrow> Inl (KeyError ''elastic_modulus'')
      | Some E \<Rightarrow>
          (case poisson_ratio (material s) of
             None \<Rightarrow> Inl (KeyError ''poisson_ratio'')
           | Some nu \<Rightarrow>
               (case thermal_expansion_coefficient (material s) of
                  None \<Rightarrow> Inl (KeyError ''thermal_expansion_coefficient'')
                | Some tec \<Rightarrow>
                    (case reference_temperature s of
                       None \<Rightarrow> Inl (KeyError ''temperature'')
                     | Some T0 \<Rightarrow>
                         if is_sequence T \<or> is_str T \<or> T = PNone
                            \<or> (case T of PDict kv \<Rightarrow> True | PCallable f \<Rightarrow> True | _ \<Rightarrow> False)
                         then Inl (TypeError ''unsupported operand type(s) for -'')
                         else if 1 - 2 * nu = 0 then Inl ZeroDivisionError
                         else Inr (ThermalTerm T)))))"

text \<open>
  The thermal part of \<open>generate_form\<close>: it sets the attribute
  \<open>temperature_distribution\<close> from the setting when the attribute is missing, and
  subtracts the thermal term when the attribute holds a true value. It returns the
  solver object with the attribute and the term, if any.
\<close>

definition thermal_part :: "'a solver_scheme \<Rightarrow> error + ('a solver_scheme \<times> weak_term list)" where
  "thermal_part s =
     (case (case temperature_distribution s of
              Some T \<Rightarrow> Inr s
            | None \<Rightarrow>
                (case temperature_setting (settings s) of
                   None \<Rightarrow> Inr s
                 | Some v \<Rightarrow>
                     if truthy v then
                       (case translate_value s v of
                          Inl e \<Rightarrow> Inl e
                        | Inr T \<Rightarrow> Inr (s\<lparr>temperature_distribution := Some T\<rparr>))
                     else Inr s)) of
        Inl e \<Rightarrow> Inl e
      | Inr s1 \<Rightarrow>
          (case temperature_distribution s1 of
             None \<Rightarrow> Inr (s1, [])
           | Some T \<Rightarrow>
               if truthy T then
                 (case translate_value s1 T of
                    Inl e \<Rightarrow> Inl e
                  | Inr T' \<Rightarrow>
                      (case temperature_setting (settings s1) of
                         None \<Rightarrow> Inl (KeyError ''temperature_distribution'')
                       | Some raw \<Rightarrow>
                           (case thermal_stress s1 raw of
                              Inl e \<Rightarrow> Inl e
                            | Inr w \<Rightarrow> Inr (s1, [w]))))
               else Inr (s1, [])))"

text \<open>
  \<open>generate_form(self, time_iter_, u, v, u_current, u_prev)\<close> of
  \<open>LinearElasticitySolver\<close>: the stiffness term; the inertial term, subtracted in
  transient mode with dynamics enabled from step 1 on; the boundary terms; the body
  source; the thermal term. The plot of the boundary facets at step 0 is a call into the
  library that leaves the form and the solver object as they are.
\<close>

definition generate_form ::
  "'a le_solver_scheme \<Rightarrow> nat \<Rightarrow> error + (weak_term list \<times> constraint list \<times> 'a le_solver_scheme)" where
  "generate_form s time_iter =
     (case lame_parameters (material s) of
        Inl e \<Rightarrow> Inl e
      | Inr lame \<Rightarrow>
          (case (if transient (tsettings s) \<and> solving_dynamics s \<and> time_iter \<ge> 1 then
                   (case get_acceleration s time_iter of
                      Inl e \<Rightarrow> Inl e
                    | Inr accel \<Rightarrow>
                        (case density (material s) of
                           None \<Rightarrow> Inl (KeyError ''density'')
                         | Some rho \<Rightarrow> Inr [Inertial rho accel]))
                 else Inr []) of
             Inl e \<Rightarrow> Inl e
           | Inr inertia \<Rightarrow>
               (case update_boundary_conditions s time_iter of
                  Inl e \<Rightarrow> Inl e
                | Inr (bcs, integrals_F) \<Rightarrow>
                    (let body = (case body_source s of
                                   None \<Rightarrow> []
                                 | Some b \<Rightarrow> if truthy b then [BodyTerm b] else [])
                     in case thermal_part s of
                          Inl e \<Rightarrow> Inl e
                        | Inr (s1, thermal) \<Rightarrow>
                            Inr ([Stiffness] @ inertia @ thermal @ integrals_F @ body, bcs, s1)))))"

text \<open>
  A dynamic run: the plain solver as a \<open>LinearElasticitySolver\<close> in transient mode with
  dynamics enabled, one degree of freedom, and the field history 0, 1, 3.
\<close>

definition dynamic_solver :: "unit le_solver_scheme" where
  "dynamic_solver =
     solver.extend
       (plain_solver\<lparr>tsettings := default_transient_settings\<lparr>transient := True\<rparr>,
                      w_current := [3], w_prev := [1], w_pp := [0]\<rparr>)
       \<lparr>solving_modal = False, solving_dynamics = True\<rparr>"





text \<open>
  A record whose own type is \<open>symmetry\<close> and whose \<open>values\<close> hold a \<open>Dirichlet\<close>
  record for the displacement.
\<close>

definition nested_record :: "(string \<times> pyval) list" where
  "nested_record =
     [(''boundary_id'', PNum 2), (''type'', PStr ''symmetry''),
      (''values'', PDict [(''displacement'',
          PDict [(''type'', PStr ''Dirichlet''), (''value'', PList [PNum 0, PNum 0, PNum 0])])])]"

section \<open>The near-nullspace\<close>

text \<open>
  A vector function space is the list of its degrees of freedom: each belongs to the
  sub-space \<open>V.sub(component)\<close> and sits at a point with the given coordinate along each
  axis. A vector holds one entry per degree of freedom and records whether \<open>apply\<close> has
  committed its entries since they were last set. The basis handed back is the result of
  the library's \<open>orthonormalize\<close> on the listed vectors.
\<close>

record dof =
  component :: nat
  coordinate :: "nat \<Rightarrow> rat"

record gvector =
  entries :: "rat list"
  finalized :: bool

datatype basis = Orthonormalized "gvector list"

text \<open>\<open>V.sub(k).dofmap().set(vec, c)\<close>: every entry of sub-space \<open>k\<close> becomes \<open>c\<close>.\<close>

definition dofmap_set :: "dof list \<Rightarrow> nat \<Rightarrow> rat \<Rightarrow> gvector \<Rightarrow> gvector" where
  "dofmap_set V k c vec =
     \<lparr>entries = map2 (\<lambda>d e. if component d = k then c else e) V (entries vec),
      finalized = False\<rparr>"

text \<open>
  \<open>V.sub(k).set_x(vec, c, axis)\<close>: every entry of sub-space \<open>k\<close> becomes \<open>c\<close> times
  the coordinate of its point along \<open>axis\<close>.
\<close>

definition set_x :: "dof list \<Rightarrow> nat \<Rightarrow> rat \<Rightarrow> nat \<Rightarrow> gvector \<Rightarrow> gvector" where
  "set_x V k c axis vec =
     \<lparr>entries = map2 (\<lambda>d e. if component d = k then c * coordinate d axis else e) V (entries vec),
      finalized = False\<rparr>"

definition apply_insert :: "gvector \<Rightarrow> gvector" where
  "apply_insert vec = vec\<lparr>finalized := True\<rparr>"

text \<open>
  \<open>build_nullspace(self, V, x)\<close>: the list starts as copies of \<open>x\<close>; in 3-D all six
  vectors are written, in 2-D only the third.
\<close>

definition build_nullspace :: "'a solver_scheme \<Rightarrow> dof list \<Rightarrow> gvector \<Rightarrow> error + basis" where
  "build_nullspace s V x =
     (case (if dimension s = 3 then
              Inr [dofmap_set V 0 1 x,
                   dofmap_set V 1 1 x,
                   dofmap_set V 2 1 x,
                   set_x V 1 1 0 (set_x V 0 (-1) 1 x),
                   set_x V 2 (-1) 0 (set_x V 0 1 2 x),
                   set_x V 1 (-1) 2 (set_x V 2 1 1 x)]
            else if dimension s = 2 then
              Inr [x, x, set_x V 1 1 0 (set_x V 0 (-1) 1 x)]
            else Inl (PyException ''only 2D or 3D is supported by nullspace'')) of
        Inl e \<Rightarrow> Inl e
      | Inr nullspace_basis \<Rightarrow> Inr (Orthonormalized (map apply_insert nullspace_basis)))"

text \<open>
  A planar space with two nodes, at \<open>(2, 3)\<close> and \<open>(5, 7)\<close>, two degrees of freedom
  each, and the zero vector on it.
\<close>

definition planar_space :: "dof list" where
  "planar_space =
     [\<lparr>component = 0, coordinate = (\<lambda>a. [2, 3] ! a)\<rparr>,
      \<lparr>component = 1, coordinate = (\<lambda>a. [2, 3] ! a)\<rparr>,
      \<lparr>component = 0, coordinate = (\<lambda>a. [5, 7] ! a)\<rparr>,
      \<lparr>component = 1, coordinate = (\<lambda>a. [5, 7] ! a)\<rparr>]"

definition zero_vector :: gvector where
  "zero_vector = \<lparr>entries = [0, 0, 0, 0], finalized = True\<rparr>"

section \<open>Verified properties\<close>

subsection \<open>The transient driver\<close>














lemma bit_length_numeral:
  "bit_length (numeral n) = Suc (bit_length (numeral n div 2))"
  "bit_length 0 = 0" "bit_length 1 = Suc 0" "bit_length (Suc 0) = Suc 0"
  by (simp_all add: bit_length.simps)

lemma floor_rat_numeral:
  "\<lfloor>(numeral a :: rat) / numeral b\<rfloor> = numeral a div numeral b"
  using floor_divide_of_int_eq[of "numeral a" "numeral b", where ?'a = rat] by simp

lemma ceiling_rat_numeral:
  "\<lceil>(numeral a :: rat) / numeral b\<rceil> = - (- numeral a div numeral b)"
  using floor_divide_of_int_eq[of "- numeral a" "numeral b", where ?'a = rat]
  by (simp add: ceiling_def)

lemmas double_eval = double_plus_def double_round_def binary_exponent_def two_to_def
  round_half_even_def bit_length_numeral floor_rat_numeral ceiling_rat_numeral Let_def

lemma double_round_literals:
  "double_round (1/100) = 5764607523034235/576460752303423488"
  "double_round (1/50) = 5764607523034235/288230376151711744"
  "double_round (3/100) = 1080863910568919/36028797018963968"
  "double_round 10000000000000000 = 10000000000000000"
  "double_round 10000000000000001 = 10000000000000000"
  "double_round 10000000000000003 = 10000000000000004"
  by (simp_all add: double_eval)

















subsection \<open>The time-step policy\<close>

lemma get_time_step_series:
  "time_step tset = NotConvertible \<Longrightarrow> time_series tset = Some ts \<Longrightarrow> k < length ts
     \<Longrightarrow> get_time_step tset k = ([], Inr 0)"
  by (simp add: get_time_step_def)

text \<open>
  Claim C4 (the code departs from it). With \<open>time_step\<close> not convertible to a number and
  \<open>time_series = [0, 0.1, 0.2]\<close>, \<open>get_time_step\<close> returns \<open>ts[k] - ts[k] = 0\<close> at every
  in-range index, not the increment 0.1 between consecutive time points; the driver
  therefore never advances its current time: the run executes steps 0, 1, 2 all at time 0
  and ends with the \<open>IndexError\<close> of \<open>ts[3]\<close>.
\<close>

theorem get_time_step_series_is_zero:
  "get_time_step \<lparr>transient = True, starting_time = Some 0, time_step = NotConvertible,
       ending_time = Some (2/10), time_series = Some [0, 1/10, 2/10]\<rparr> 0 = ([], Inr 0)
   \<and> get_time_step \<lparr>transient = True, starting_time = Some 0, time_step = NotConvertible,
       ending_time = Some (2/10), time_series = Some [0, 1/10, 2/10]\<rparr> 1 = ([], Inr 0)
   \<and> get_time_step \<lparr>transient = True, starting_time = Some 0, time_step = NotConvertible,
       ending_time = Some (2/10), time_series = Some [0, 1/10, 2/10]\<rparr> 2 = ([], Inr 0)
   \<and> solve_transient stiffness_only keep_field []
        (plain_solver\<lparr>tsettings := \<lparr>transient = True, starting_time = Some 0,
            time_step = NotConvertible, ending_time = Some (2/10),
            time_series = Some [0, 1/10, 2/10]\<rparr>\<rparr>)
       = Some (Raised IndexError
            (plain_solver\<lparr>tsettings := \<lparr>transient = True, starting_time = Some 0,
                time_step = NotConvertible, ending_time = Some (2/10),
                time_series = Some [0, 1/10, 2/10]\<rparr>,
              current_step := 3, current_time := 0,
              events := [Status 0 0, Status 1 0, Status 2 0]\<rparr>))"
proof -
  let ?ts = "\<lparr>transient = True, starting_time = Some 0, time_step = NotConvertible,
       ending_time = Some (2/10), time_series = Some [0, 1/10, 2/10]\<rparr>"
  have a: "get_time_step ?ts 0 = ([], Inr 0)" "get_time_step ?ts 1 = ([], Inr 0)"
    "get_time_step ?ts 2 = ([], Inr 0)"
    by (simp_all add: get_time_step_def)
  have b: "solve_transient stiffness_only keep_field [] (plain_solver\<lparr>tsettings := ?ts\<rparr>)
       = Some (Raised IndexError
            (plain_solver\<lparr>tsettings := ?ts, current_step := 3, current_time := 0,
              events := [Status 0 0, Status 1 0, Status 2 0]\<rparr>))"
    apply (simp add: solve_transient_def plain_solver_def default_report_settings_def)
    apply (subst time_loop.simps)
    apply (simp add: get_time_step_def solve_current_step_def stiffness_only_def keep_field_def
        report_step_def Let_def)
    apply (subst time_loop.simps)
    apply (simp add: get_time_step_def solve_current_step_def stiffness_only_def keep_field_def
        report_step_def Let_def)
    apply (subst time_loop.simps)
    apply (simp add: get_time_step_def solve_current_step_def stiffness_only_def keep_field_def
        report_step_def Let_def)
    apply (subst time_loop.simps)
    apply (simp add: get_time_step_def solve_current_step_def stiffness_only_def keep_field_def
        report_step_def Let_def)
    done
  from a b show ?thesis by (intro conjI)
qed

text \<open>
  Claim C9 (the code departs from it). With \<open>time_step\<close> not convertible and a series of
  two time points, a lookup at index 3 prints the warning and then raises
  \<open>UnboundLocalError\<close> at the \<open>return\<close>, in \<open>get_time_step\<close> and in \<open>get_current_time\<close>
  alike: neither returns normally.
\<close>

theorem series_lookup_beyond_length_raises:
  "get_time_step \<lparr>transient = True, starting_time = Some 0, time_step = NotConvertible,
       ending_time = Some 1, time_series = Some [0, 1/10]\<rparr> 3
     = ([''time step can only be a sequence or scalar''], Inl (UnboundLocalError ''dt''))
   \<and> get_current_time \<lparr>transient = True, starting_time = Some 0, time_step = NotConvertible,
       ending_time = Some 1, time_series = Some [0, 1/10]\<rparr> 0 (Some 3)
     = ([''time point can only be a sequence of time series or derived from constant time step''],
        Inl (UnboundLocalError ''tp''))"
  by (simp add: get_time_step_def get_current_time_def series_time_point_def)

subsection \<open>Boundary conditions\<close>

lemma axis_constraints_free:
  "axis_constraints s sp i a (PNone # rest) = axis_constraints s sp i (a + 1) rest"
  by simp

lemma axis_constraints_fixed:
  "disp \<noteq> PNone \<Longrightarrow> axis_constraints s sp i a (disp # rest) =
     (case translate_value s disp of
        Inl e \<Rightarrow> Inl e
      | Inr v \<Rightarrow>
          (case axis_constraints s sp i (a + 1) rest of
             Inl e \<Rightarrow> Inl e
           | Inr cs \<Rightarrow> Inr (DirichletBC (sp a) v i # cs)))"
  by (cases disp) simp_all

lemma axis_constraints_ok:
  assumes "\<forall>x \<in> set xs. x = PNone \<or> (\<exists>v. translate_value s x = Inr v)"
  shows "\<exists>cs. axis_constraints s sp i a xs = Inr cs
           \<and> length cs = length (filter (\<lambda>x. x \<noteq> PNone) xs)
           \<and> (\<forall>c \<in> set cs. \<exists>j v. j < length xs \<and> xs ! j \<noteq> PNone
                  \<and> translate_value s (xs ! j) = Inr v \<and> c = DirichletBC (sp (a + j)) v i)
           \<and> (\<forall>j < length xs. xs ! j \<noteq> PNone \<longrightarrow> (\<exists>v. DirichletBC (sp (a + j)) v i \<in> set cs))"
  using assms
proof (induction xs arbitrary: a)
  case Nil
  then show ?case by simp
next
  case (Cons x xs)
  from Cons.prems have rest: "\<forall>x \<in> set xs. x = PNone \<or> (\<exists>v. translate_value s x = Inr v)"
    by simp
  from Cons.IH[OF rest, of "a + 1"] obtain cs where
    cs: "axis_constraints s sp i (a + 1) xs = Inr cs"
    and len: "length cs = length (filter (\<lambda>x. x \<noteq> PNone) xs)"
    and sub: "\<forall>c \<in> set cs. \<exists>j v. j < length xs \<and> xs ! j \<noteq> PNone
                  \<and> translate_value s (xs ! j) = Inr v \<and> c = DirichletBC (sp (a + 1 + j)) v i"
    and sup: "\<forall>j < length xs. xs ! j \<noteq> PNone \<longrightarrow> (\<exists>v. DirichletBC (sp (a + 1 + j)) v i \<in> set cs)"
    by blast
  have sub': "\<forall>c \<in> set cs. \<exists>j v. j < length (x # xs) \<and> (x # xs) ! j \<noteq> PNone
                  \<and> translate_value s ((x # xs) ! j) = Inr v \<and> c = DirichletBC (sp (a + j)) v i"
  proof
    fix c assume "c \<in> set cs"
    with sub obtain j v where "j < length xs" "xs ! j \<noteq> PNone"
      "translate_value s (xs ! j) = Inr v" "c = DirichletBC (sp (a + 1 + j)) v i" by blast
    then have "Suc j < length (x # xs) \<and> (x # xs) ! Suc j \<noteq> PNone
                  \<and> translate_value s ((x # xs) ! Suc j) = Inr v \<and> c = DirichletBC (sp (a + Suc j)) v i"
      by simp
    then show "\<exists>j v. j < length (x # xs) \<and> (x # xs) ! j \<noteq> PNone
                  \<and> translate_value s ((x # xs) ! j) = Inr v \<and> c = DirichletBC (sp (a + j)) v i"
      by blast
  qed
  show ?case
  proof (cases "x = PNone")
    case True
    have "\<forall>j < length (x # xs). (x # xs) ! j \<noteq> PNone \<longrightarrow> (\<exists>v. DirichletBC (sp (a + j)) v i \<in> set cs)"
    proof (intro allI impI)
      fix j assume j: "j < length (x # xs)" "(x # xs) ! j \<noteq> PNone"
      with True obtain j' where "j = Suc j'" by (cases j) auto
      with j sup show "\<exists>v. DirichletBC (sp (a + j)) v i \<in> set cs" by auto
    qed
    with True cs len sub' show ?thesis by simp
  next
    case False
    with Cons.prems obtain v where v: "translate_value s x = Inr v" by auto
    let ?cs = "DirichletBC (sp a) v i # cs"
    have e: "axis_constraints s sp i a (x # xs) = Inr ?cs"
      using False v cs by (simp add: axis_constraints_fixed)
    have l: "length ?cs = length (filter (\<lambda>x. x \<noteq> PNone) (x # xs))"
      using False len by simp
    have s1: "\<forall>c \<in> set ?cs. \<exists>j v. j < length (x # xs) \<and> (x # xs) ! j \<noteq> PNone
                  \<and> translate_value s ((x # xs) ! j) = Inr v \<and> c = DirichletBC (sp (a + j)) v i"
    proof
      fix c assume "c \<in> set ?cs"
      then consider "c = DirichletBC (sp a) v i" | "c \<in> set cs" by auto
      then show "\<exists>j v. j < length (x # xs) \<and> (x # xs) ! j \<noteq> PNone
                  \<and> translate_value s ((x # xs) ! j) = Inr v \<and> c = DirichletBC (sp (a + j)) v i"
      proof cases
        case 1
        with False v have "0 < length (x # xs) \<and> (x # xs) ! 0 \<noteq> PNone
                  \<and> translate_value s ((x # xs) ! 0) = Inr v \<and> c = DirichletBC (sp (a + 0)) v i"
          by simp
        then show ?thesis by blast
      next
        case 2
        with sub' show ?thesis by blast
      qed
    qed
    have s2: "\<forall>j < length (x # xs). (x # xs) ! j \<noteq> PNone \<longrightarrow> (\<exists>v. DirichletBC (sp (a + j)) v i \<in> set ?cs)"
    proof (intro allI impI)
      fix j assume j: "j < length (x # xs)" "(x # xs) ! j \<noteq> PNone"
      show "\<exists>v. DirichletBC (sp (a + j)) v i \<in> set ?cs"
      proof (cases j)
        case 0
        then show ?thesis by auto
      next
        case (Suc j')
        with j sup obtain w where "DirichletBC (sp (a + 1 + j')) w i \<in> set cs" by auto
        with Suc show ?thesis by auto
      qed
    qed
    from e l s1 s2 show ?thesis by blast
  qed
qed


lemma resolve_all_single:
  "resolve_all s [(name, r)] ([], []) = (case resolve_boundary s r of Inl e \<Rightarrow> Inl e | Inr (cs, ws) \<Rightarrow> Inr (cs, ws))"
  by (simp split: sum.splits prod.splits)

lemma source_terms_none:
  "point_source (settings s) = None \<Longrightarrow> surface_source (settings s) = None \<Longrightarrow> source_terms s = Inr ([], [])"
  by (simp add: source_terms_def)

lemma translate_value_number: "translate_value s (PNum r) = Inr (PConstant (PNum r))"
  by (simp add: translate_value_def)

text \<open>
  Claim C2. In a single (non-mixed) vector space, a \<open>Dirichlet\<close> or \<open>displacement\<close>
  record whose value is a list or tuple as long as the dimension, every entry of which is
  \<open>None\<close> or translatable, yields one hard constraint per entry other than \<open>None\<close>, on
  the sub-space of that entry's axis and on the record's boundary id, and none for the
  \<open>None\<close> axes: axis \<open>a\<close> is constrained exactly when entry \<open>a\<close> is not \<open>None\<close>. A
  number, zero included, is translatable, so \<open>[v, None, w]\<close> in 3-D gives exactly the two
  constraints on axes 0 and 2. When the record is the only one and there is no point or
  surface source, these are all \<open>update_boundary_conditions\<close> returns.
\<close>

theorem displacement_axis_constraints:
  assumes nm: "\<not> is_mixed_function_space s"
    and bid: "map_of d ''boundary_id'' = Some i"
    and gbv: "get_boundary_variable s d = Inr (PDict b)"
    and ty: "map_of b ''type'' = Some (PStr ''Dirichlet'') \<or> map_of b ''type'' = Some (PStr ''displacement'')"
    and bv: "map_of b ''value'' = Some bv" "is_sequence bv" "length (items bv) = dimension s"
    and ok: "\<forall>x \<in> set (items bv). x = PNone \<or> (\<exists>v. translate_value s x = Inr v)"
  shows "\<exists>cs. resolve_boundary s (PDict d) = Inr (cs, [])
      \<and> length cs = length (filter (\<lambda>x. x \<noteq> PNone) (items bv))
      \<and> (\<forall>c \<in> set cs. \<exists>a v. a < dimension s \<and> items bv ! a \<noteq> PNone
             \<and> translate_value s (items bv ! a) = Inr v \<and> c = DirichletBC (Sub a) v i)
      \<and> (\<forall>a < dimension s. (\<exists>v. DirichletBC (Sub a) v i \<in> set cs) \<longleftrightarrow> items bv ! a \<noteq> PNone)
      \<and> (\<forall>name k. boundary_conditions s = [(name, PDict d)] \<longrightarrow> point_source (settings s) = None
             \<longrightarrow> surface_source (settings s) = None
             \<longrightarrow> update_boundary_conditions s k = Inr (cs, []))
      \<and> (\<forall>v w. items bv = [PNum v, PNone, PNum w] \<longrightarrow>
             cs = [DirichletBC (Sub 0) (PConstant (PNum v)) i, DirichletBC (Sub 2) (PConstant (PNum w)) i])"
proof -
  from axis_constraints_ok[OF ok, of Sub i 0] obtain cs where
    cs: "axis_constraints s Sub i 0 (items bv) = Inr cs"
    and len: "length cs = length (filter (\<lambda>x. x \<noteq> PNone) (items bv))"
    and sub: "\<forall>c \<in> set cs. \<exists>j v. j < length (items bv) \<and> items bv ! j \<noteq> PNone
                  \<and> translate_value s (items bv ! j) = Inr v \<and> c = DirichletBC (Sub (0 + j)) v i"
    and sup: "\<forall>j < length (items bv). items bv ! j \<noteq> PNone \<longrightarrow> (\<exists>v. DirichletBC (Sub (0 + j)) v i \<in> set cs)"
    by blast
  have dc: "dirichlet_constraints s b i = Inr cs"
    using nm bv cs by (simp add: dirichlet_constraints_def)
  have r: "resolve_boundary s (PDict d) = Inr (cs, [])"
    using bid gbv ty dc by (auto simp: resolve_boundary_def py_item_def Let_def)
  have c3: "\<forall>c \<in> set cs. \<exists>a v. a < dimension s \<and> items bv ! a \<noteq> PNone
             \<and> translate_value s (items bv ! a) = Inr v \<and> c = DirichletBC (Sub a) v i"
    using sub bv(3) by simp
  have c4: "\<forall>a < dimension s. (\<exists>v. DirichletBC (Sub a) v i \<in> set cs) \<longleftrightarrow> items bv ! a \<noteq> PNone"
  proof (intro allI impI iffI)
    fix a assume a: "a < dimension s" and "\<exists>v. DirichletBC (Sub a) v i \<in> set cs"
    then obtain v where "DirichletBC (Sub a) v i \<in> set cs" by blast
    with c3 obtain a' v' where "items bv ! a' \<noteq> PNone" "DirichletBC (Sub a) v i = DirichletBC (Sub a') v' i"
      by blast
    then show "items bv ! a \<noteq> PNone" by simp
  next
    fix a assume "a < dimension s" and "items bv ! a \<noteq> PNone"
    with sup bv(3) show "\<exists>v. DirichletBC (Sub a) v i \<in> set cs" by simp
  qed
  have c5: "\<forall>name k. boundary_conditions s = [(name, PDict d)] \<longrightarrow> point_source (settings s) = None
             \<longrightarrow> surface_source (settings s) = None
             \<longrightarrow> update_boundary_conditions s k = Inr (cs, [])"
    using r by (simp add: update_boundary_conditions_def source_terms_none)
  have c6: "\<forall>v w. items bv = [PNum v, PNone, PNum w] \<longrightarrow>
             cs = [DirichletBC (Sub 0) (PConstant (PNum v)) i, DirichletBC (Sub 2) (PConstant (PNum w)) i]"
    using cs by (auto simp: translate_value_number)
  from r len c3 c4 c5 c6 show ?thesis by blast
qed

theorem displacement_axis_constraints_witness:
  "update_boundary_conditions (plain_solver\<lparr>boundary_conditions := [(''fixed'', PDict fixed_record)]\<rparr>) 0
     = Inr ([DirichletBC (Sub 0) (PConstant (PNum 0)) (PNum 1),
             DirichletBC (Sub 2) (PConstant (PNum (1/1000))) (PNum 1)], [])"
proof -
  let ?s = "plain_solver\<lparr>boundary_conditions := [(''fixed'', PDict fixed_record)]\<rparr>"
  let ?bv = "PList [PNum 0, PNone, PNum (1/1000)]"
  have nm: "\<not> is_mixed_function_space ?s" by (simp add: plain_solver_def)
  have bid: "map_of fixed_record ''boundary_id'' = Some (PNum 1)" by (simp add: fixed_record_def)
  have gbv: "get_boundary_variable ?s fixed_record = Inr (PDict fixed_record)"
    by (simp add: get_boundary_variable_def fixed_record_def)
  have ty: "map_of fixed_record ''type'' = Some (PStr ''Dirichlet'')
      \<or> map_of fixed_record ''type'' = Some (PStr ''displacement'')"
    by (simp add: fixed_record_def)
  have bv: "map_of fixed_record ''value'' = Some ?bv" "is_sequence ?bv"
    "length (items ?bv) = dimension ?s"
    by (simp_all add: fixed_record_def plain_solver_def)
  have ok: "\<forall>x \<in> set (items ?bv). x = PNone \<or> (\<exists>v. translate_value ?s x = Inr v)"
    by (simp add: translate_value_def)
  from displacement_axis_constraints[OF nm bid gbv ty bv ok]
  obtain cs where
    u: "\<forall>name k. boundary_conditions ?s = [(name, PDict fixed_record)] \<longrightarrow> point_source (settings ?s) = None
             \<longrightarrow> surface_source (settings ?s) = None
             \<longrightarrow> update_boundary_conditions ?s k = Inr (cs, [])"
    and c: "\<forall>v w. items ?bv = [PNum v, PNone, PNum w] \<longrightarrow>
             cs = [DirichletBC (Sub 0) (PConstant (PNum v)) (PNum 1),
                   DirichletBC (Sub 2) (PConstant (PNum w)) (PNum 1)]"
    by blast
  from c have "cs = [DirichletBC (Sub 0) (PConstant (PNum 0)) (PNum 1),
                   DirichletBC (Sub 2) (PConstant (PNum (1/1000))) (PNum 1)]"
    by simp
  moreover from u have "update_boundary_conditions ?s 0 = Inr (cs, [])"
    by (simp add: plain_solver_def)
  ultimately show ?thesis by simp
qed

lemma resolve_all_append:
  "resolve_all s (pre @ rest) acc =
     (case resolve_all s pre acc of Inl e \<Rightarrow> Inl e | Inr acc' \<Rightarrow> resolve_all s rest acc')"
proof (induction pre arbitrary: acc)
  case Nil
  show ?case by simp
next
  case (Cons r pre)
  obtain name bc where r: "r = (name, bc)" by (cases r)
  obtain bcs ints where acc: "acc = (bcs, ints)" by (cases acc)
  show ?case
    unfolding r acc using Cons.IH
    by (simp split: sum.splits prod.splits)
qed

lemma resolve_all_raises:
  "resolve_boundary s r = Inl e \<Longrightarrow> resolve_all s ((name, r) # post) acc = Inl e"
  by (cases acc) simp


lemma format_unsupported:
  "format_msg ''Neumann boundary type`{}` is not supported'' [tag]
     = ''Neumann boundary type`'' @ tag @ ''` is not supported''"
  "format_msg ''symmetry boundary type`{}` is not supported'' [tag]
     = ''symmetry boundary type`'' @ tag @ ''` is not supported''"
  "format_msg ''boundary type`{}` is not supported'' [tag]
     = ''boundary type`'' @ tag @ ''` is not supported''"
  by simp_all

text \<open>
  Claim C3 as it stands fails for a record with a \<open>values\<close> entry. The record on
  boundary 2 has the type \<open>symmetry\<close> itself, but its \<open>values\<close> hold a \<open>Dirichlet\<close>
  record for the displacement; \<open>get_boundary_variable\<close> selects that entry, the
  record's own type is never read, and \<open>update_boundary_conditions\<close> returns three
  hard constraints instead of raising.
\<close>

theorem own_type_not_read_counterexample:
  "map_of nested_record ''type'' = Some (PStr ''symmetry'')
   \<and> update_boundary_conditions
        (plain_solver\<lparr>boundary_conditions := [(''mirror'', PDict nested_record)]\<rparr>) 0
       = Inr ([DirichletBC (Sub 0) (PConstant (PNum 0)) (PNum 2),
               DirichletBC (Sub 1) (PConstant (PNum 0)) (PNum 2),
               DirichletBC (Sub 2) (PConstant (PNum 0)) (PNum 2)], [])"
  by (simp add: nested_record_def update_boundary_conditions_def source_terms_def
      resolve_boundary_def py_item_def get_boundary_variable_def get_variable_name_def
      dirichlet_constraints_def translate_value_def plain_solver_def Let_def)

text \<open>
  Claim C3, as amended. The type that decides is the type of the record
  \<open>get_boundary_variable\<close> selects: the boundary record itself, or the entry of its
  \<open>values\<close> for the solver's variable. For a record with a boundary id, when that type
  is \<open>Neumann\<close>, \<open>symmetry\<close> or any value other than \<open>Dirichlet\<close>, \<open>displacement\<close>,
  \<open>force\<close>, \<open>pressure\<close>, \<open>stress\<close>, the loop body raises \<open>SolverError\<close> with the
  type as the argument of the message; for a string tag the message text contains the
  tag. Wherever such a record stands in \<open>boundary_conditions\<close>,
  \<open>update_boundary_conditions\<close> raises and returns no constraints or terms, and when
  the preamble and the records before it raise nothing, the exception is this
  \<open>SolverError\<close>.
\<close>

theorem unsupported_boundary_type_raises:
  fixes t :: pyval
  defines "tmpl \<equiv> (if t = PStr ''Neumann'' then ''Neumann boundary type`{}` is not supported''
                    else if t = PStr ''symmetry'' then ''symmetry boundary type`{}` is not supported''
                    else ''boundary type`{}` is not supported'')"
  assumes bid: "map_of d ''boundary_id'' = Some i"
    and gbv: "get_boundary_variable s d = Inr bc"
    and ty: "py_item bc ''type'' = Inr t"
    and un: "t \<notin> {PStr ''Dirichlet'', PStr ''displacement'', PStr ''force'', PStr ''pressure'', PStr ''stress''}"
  shows "resolve_boundary s (PDict d) = Inl (SolverError tmpl [t])
     \<and> (\<forall>tag. t = PStr tag \<longrightarrow> (\<exists>p q. format_msg tmpl [tag] = p @ tag @ q))
     \<and> (\<forall>pre name post k. boundary_conditions s = pre @ (name, PDict d) # post \<longrightarrow>
           (\<exists>e. update_boundary_conditions s k = Inl e)
           \<and> (\<forall>acc acc'. source_terms s = Inr acc \<longrightarrow> resolve_all s pre acc = Inr acc' \<longrightarrow>
                 update_boundary_conditions s k = Inl (SolverError tmpl [t])))"
proof -
  have r: "resolve_boundary s (PDict d) = Inl (SolverError tmpl [t])"
    using bid gbv ty un by (simp add: resolve_boundary_def py_item_def Let_def tmpl_def)
  have m: "\<forall>tag. t = PStr tag \<longrightarrow> (\<exists>p q. format_msg tmpl [tag] = p @ tag @ q)"
  proof (intro allI impI)
    fix tag assume t: "t = PStr tag"
    consider "tag = ''Neumann''" | "tag \<noteq> ''Neumann''" "tag = ''symmetry''"
      | "tag \<noteq> ''Neumann''" "tag \<noteq> ''symmetry''" by blast
    then show "\<exists>p q. format_msg tmpl [tag] = p @ tag @ q"
    proof cases
      case 1
      with t have e: "tmpl = ''Neumann boundary type`{}` is not supported''" by (simp add: tmpl_def)
      show ?thesis unfolding e by (intro exI) (rule format_unsupported(1))
    next
      case 2
      with t have e: "tmpl = ''symmetry boundary type`{}` is not supported''" by (simp add: tmpl_def)
      show ?thesis unfolding e by (intro exI) (rule format_unsupported(2))
    next
      case 3
      with t have e: "tmpl = ''boundary type`{}` is not supported''" by (simp add: tmpl_def)
      show ?thesis unfolding e by (intro exI) (rule format_unsupported(3))
    qed
  qed
  have w: "\<forall>pre name post k. boundary_conditions s = pre @ (name, PDict d) # post \<longrightarrow>
           (\<exists>e. update_boundary_conditions s k = Inl e)
           \<and> (\<forall>acc acc'. source_terms s = Inr acc \<longrightarrow> resolve_all s pre acc = Inr acc' \<longrightarrow>
                 update_boundary_conditions s k = Inl (SolverError tmpl [t]))"
  proof (intro allI impI)
    fix pre name post k
    assume b: "boundary_conditions s = pre @ (name, PDict d) # post"
    have a: "\<And>acc. resolve_all s (pre @ (name, PDict d) # post) acc =
        (case resolve_all s pre acc of Inl e \<Rightarrow> Inl e | Inr acc' \<Rightarrow> Inl (SolverError tmpl [t]))"
      unfolding resolve_all_append using resolve_all_raises[OF r]
      by (simp split: sum.splits)
    have c1: "\<exists>e. update_boundary_conditions s k = Inl e"
      unfolding update_boundary_conditions_def b a by (simp split: sum.splits)
    have c2: "\<forall>acc acc'. source_terms s = Inr acc \<longrightarrow> resolve_all s pre acc = Inr acc' \<longrightarrow>
                 update_boundary_conditions s k = Inl (SolverError tmpl [t])"
      unfolding update_boundary_conditions_def b a by simp
    from c1 c2 show "(\<exists>e. update_boundary_conditions s k = Inl e)
           \<and> (\<forall>acc acc'. source_terms s = Inr acc \<longrightarrow> resolve_all s pre acc = Inr acc' \<longrightarrow>
                 update_boundary_conditions s k = Inl (SolverError tmpl [t]))"
      by (rule conjI)
  qed
  show ?thesis by (rule conjI[OF r conjI[OF m w]])
qed

theorem unsupported_boundary_type_raises_witness:
  "update_boundary_conditions
     (plain_solver\<lparr>boundary_conditions :=
        [(''fixed'', PDict fixed_record), (''mirror'', PDict mirror_record)]\<rparr>) 0
     = Inl (SolverError ''symmetry boundary type`{}` is not supported'' [PStr ''symmetry''])
   \<and> (\<exists>p q. format_msg ''symmetry boundary type`{}` is not supported'' [''symmetry'']
          = p @ ''symmetry'' @ q)"
proof -
  let ?s = "plain_solver\<lparr>boundary_conditions :=
        [(''fixed'', PDict fixed_record), (''mirror'', PDict mirror_record)]\<rparr>"
  let ?acc = "([DirichletBC (Sub 0) (PConstant (PNum 0)) (PNum 1),
                DirichletBC (Sub 2) (PConstant (PNum (1/1000))) (PNum 1)], [])"
  have bid: "map_of mirror_record ''boundary_id'' = Some (PNum 2)" by (simp add: mirror_record_def)
  have gbv: "get_boundary_variable ?s mirror_record = Inr (PDict mirror_record)"
    by (simp add: get_boundary_variable_def mirror_record_def)
  have ty: "py_item (PDict mirror_record) ''type'' = Inr (PStr ''symmetry'')"
    by (simp add: py_item_def mirror_record_def)
  have un: "PStr ''symmetry'' \<notin> {PStr ''Dirichlet'', PStr ''displacement'', PStr ''force'',
      PStr ''pressure'', PStr ''stress''}"
    by simp
  note T = unsupported_boundary_type_raises[OF bid gbv ty un]
  have b: "boundary_conditions ?s = [(''fixed'', PDict fixed_record)] @ (''mirror'', PDict mirror_record) # []"
    by simp
  have src: "source_terms ?s = Inr ([], [])"
    by (simp add: source_terms_def plain_solver_def)
  have pre: "resolve_all ?s [(''fixed'', PDict fixed_record)] ([], []) = Inr ?acc"
    by (simp add: resolve_boundary_def py_item_def get_boundary_variable_def fixed_record_def
        dirichlet_constraints_def translate_value_def plain_solver_def Let_def)
  from T[THEN conjunct2, THEN conjunct2, rule_format, OF b, THEN conjunct2, rule_format, OF src pre]
  have c1: "update_boundary_conditions ?s 0
     = Inl (SolverError ''symmetry boundary type`{}` is not supported'' [PStr ''symmetry''])"
    by simp
  from T[THEN conjunct2, THEN conjunct1, rule_format, OF refl]
  have c2: "\<exists>p q. format_msg ''symmetry boundary type`{}` is not supported'' [''symmetry'']
          = p @ ''symmetry'' @ q"
    by simp
  from c1 c2 show ?thesis by (rule conjI)
qed




subsection \<open>Boundary values\<close>

text \<open>
  Claim C10. When the star import binds no global \<open>translate_value\<close>, every call of
  \<open>get_boundary_value\<close> raises: a call that reaches the \<open>return\<close> raises
  \<open>NameError\<close> for \<open>translate_value\<close>, whatever the record and the variable name are,
  and a call that does not reach it has raised before. No call returns a value.
\<close>

theorem get_boundary_value_never_returns:
  assumes "imported ''translate_value'' = None"
  shows "(\<exists>e. get_boundary_value imported s bc variable = Inl e)
     \<and> (\<forall>bvalue. boundary_raw_value s bc variable = Inr bvalue \<longrightarrow>
           get_boundary_value imported s bc variable = Inl (NameError ''translate_value''))"
  using assms by (simp add: get_boundary_value_def split: sum.splits)

theorem get_boundary_value_never_returns_witness:
  "get_boundary_value dolfin_names plain_solver fixed_record None = Inl (NameError ''translate_value'')
   \<and> boundary_raw_value plain_solver fixed_record None
       = Inr (Some (PList [PNum 0, PNone, PNum (1/1000)]))"
proof -
  have n: "dolfin_names ''translate_value'' = None" by (simp add: dolfin_names_def)
  have r: "boundary_raw_value plain_solver fixed_record None
       = Inr (Some (PList [PNum 0, PNone, PNum (1/1000)]))"
    by (simp add: boundary_raw_value_def fixed_record_def)
  from get_boundary_value_never_returns[of dolfin_names plain_solver fixed_record None,
      OF n, THEN conjunct2, rule_format, OF r] r
  show ?thesis by (rule conjI)
qed

subsection \<open>Callable values\<close>

lemma translate_value_callable:
  "transient (tsettings s) \<Longrightarrow> time_step (tsettings s) = Convertible dt
    \<Longrightarrow> starting_time (tsettings s) = Some t0
    \<Longrightarrow> translate_value s (PCallable f) = Inr (f (t0 + dt * (of_nat (current_step s) - 1)))"
  by (simp add: translate_value_def get_current_time_def)

text \<open>
  Claim C8 (the code departs from it). In transient mode with \<open>starting_time = 0\<close> and
  \<open>time_step = 0.01\<close>, a callable value is called with \<open>starting_time + (k - 1) * dt\<close>,
  one step behind the driver's time \<open>starting_time + k * dt\<close>: at step 0, where the
  driver's current time is 0, the callable (here the one that returns its argument)
  receives \<open>-0.01\<close>, and at step 2, current time 0.02, it receives 0.01. The result of
  the call is returned as it is.
\<close>

theorem callable_gets_previous_time:
  "translate_value
      (plain_solver\<lparr>tsettings := default_transient_settings\<lparr>transient := True\<rparr>,
                     current_step := 0, current_time := 0\<rparr>)
      (PCallable PNum) = Inr (PNum (- (1/100)))
   \<and> translate_value
      (plain_solver\<lparr>tsettings := default_transient_settings\<lparr>transient := True\<rparr>,
                     current_step := 2, current_time := 2/100\<rparr>)
      (PCallable PNum) = Inr (PNum (1/100))"
  by (simp add: translate_value_def get_current_time_def default_transient_settings_def)

subsection \<open>The inertial term\<close>

lemma dynamic_solver_fields:
  "material dynamic_solver = material plain_solver"
  "tsettings dynamic_solver = default_transient_settings\<lparr>transient := True\<rparr>"
  "solving_dynamics dynamic_solver = True"
  "boundary_conditions dynamic_solver = []"
  "settings dynamic_solver = settings plain_solver"
  "body_source dynamic_solver = None"
  "temperature_distribution dynamic_solver = None"
  by (simp_all add: dynamic_solver_def plain_solver_def solver.defs le_solver.defs)

lemma get_acceleration_dynamic: "get_acceleration dynamic_solver (Suc 0) = Inr [1]"
  by (simp add: get_acceleration_def inverse_time_step_def get_time_step_def dynamic_solver_def
      plain_solver_def default_transient_settings_def field_minus_def field_scale_def field_over_def
      solver.defs le_solver.defs Let_def)

text \<open>
  Claim C7 (the code departs from it). With dynamics enabled in transient mode, a fixed
  step \<open>dt = 0.01\<close>, density 7800 and the field history \<open>w_pp = 0\<close>, \<open>w_prev = 1\<close>,
  \<open>w_current = 3\<close>, the two backward-difference velocities are 200 and 100. The claim's
  estimate, their difference divided by \<open>dt\<close>, is 10000; \<open>get_acceleration\<close> divides the
  difference by \<open>Constant(1 / dt)\<close>, that is it multiplies by \<open>dt\<close>, and returns 1, and
  this is the acceleration in the inertial term of the form at step 1. At step 0 the form
  has no inertial term.
\<close>

theorem get_acceleration_multiplies_by_time_step:
  "get_acceleration dynamic_solver 1 = Inr [1]
   \<and> field_over (field_minus (field_over (field_minus [3] [1]) (1/100))
                              (field_over (field_minus [1] [0]) (1/100))) (1/100) = [10000]
   \<and> generate_form dynamic_solver 1 = Inr ([Stiffness, Inertial 7800 [1]], [], dynamic_solver)
   \<and> generate_form dynamic_solver 0 = Inr ([Stiffness], [], dynamic_solver)"
proof -
  have a: "get_acceleration dynamic_solver 1 = Inr [1]"
    using get_acceleration_dynamic by simp
  have b: "field_over (field_minus (field_over (field_minus [3] [1]) (1/100))
                              (field_over (field_minus [1] [0]) (1/100))) (1/100) = [10000]"
    by (simp add: field_minus_def field_over_def)
  have c: "generate_form dynamic_solver 1 = Inr ([Stiffness, Inertial 7800 [1]], [], dynamic_solver)"
    by (simp add: generate_form_def get_acceleration_dynamic lame_parameters_def
        update_boundary_conditions_def source_terms_def thermal_part_def dynamic_solver_fields
        plain_solver_def)
  have d: "generate_form dynamic_solver 0 = Inr ([Stiffness], [], dynamic_solver)"
    by (simp add: generate_form_def lame_parameters_def update_boundary_conditions_def
        source_terms_def thermal_part_def dynamic_solver_fields plain_solver_def)
  from a b c d show ?thesis by (intro conjI)
qed

subsection \<open>The near-nullspace\<close>

lemma build_nullspace_shape:
  "dimension s = 3 \<Longrightarrow> \<exists>vs. build_nullspace s V x = Inr (Orthonormalized vs) \<and> length vs = 6
      \<and> list_all finalized vs"
  "dimension s = 2 \<Longrightarrow> \<exists>vs. build_nullspace s V x = Inr (Orthonormalized vs) \<and> length vs = 3
      \<and> list_all finalized vs"
  "dimension s \<noteq> 2 \<Longrightarrow> dimension s \<noteq> 3 \<Longrightarrow>
     build_nullspace s V x = Inl (PyException ''only 2D or 3D is supported by nullspace'')"
  by (simp_all add: build_nullspace_def apply_insert_def)

text \<open>
  Claim C6 (the code departs from it). In 2-D, on the two-node planar space and the zero
  vector, \<open>build_nullspace\<close> hands three finalized vectors to \<open>orthonormalize\<close>, but the
  first two are the unchanged copies of \<open>x\<close> (here zero vectors), not the unit
  translations \<open>[1, 0, 1, 0]\<close> and \<open>[0, 1, 0, 1]\<close> that \<open>dofmap().set\<close> would write as in
  the 3-D branch; only the third, the in-plane rotation \<open>[-y, x]\<close> per node, is written.
\<close>

theorem planar_nullspace_lacks_translations:
  "build_nullspace (plain_solver\<lparr>dimension := 2\<rparr>) planar_space zero_vector
     = Inr (Orthonormalized
         [\<lparr>entries = [0, 0, 0, 0], finalized = True\<rparr>,
          \<lparr>entries = [0, 0, 0, 0], finalized = True\<rparr>,
          \<lparr>entries = [-3, 2, -7, 5], finalized = True\<rparr>])
   \<and> dofmap_set planar_space 0 1 zero_vector = \<lparr>entries = [1, 0, 1, 0], finalized = False\<rparr>
   \<and> dofmap_set planar_space 1 1 zero_vector = \<lparr>entries = [0, 1, 0, 1], finalized = False\<rparr>"
  by (simp add: build_nullspace_def apply_insert_def set_x_def dofmap_set_def planar_space_def
      zero_vector_def)

end
